theory Spec2Isabelle
  imports Main
begin

section \<open>Stream statistics\<close>

text \<open>
  \<^verbatim>\<open>interface StreamStats\<close> of \<^verbatim>\<open>engine.ts\<close>. The numeric fields are JavaScript numbers;
  the model takes them as integers (peer counts, byte counts and speeds decoded from the
  engine's JSON).
\<close>

record StreamStats =
  status :: string
  peers :: int
  speedDown :: int
  speedUp :: int
  downloaded :: int
  uploaded :: int
  isLive :: bool

text \<open>
  The synthetic statistics that \<^verbatim>\<open>getStreamStats\<close> returns from its \<^verbatim>\<open>catch\<close> and that
  the \<^verbatim>\<open>acestream:stats\<close> handler returns for a rejected URL.
\<close>

definition errorStats :: StreamStats where
  "errorStats = \<lparr>status = ''error'', peers = 0, speedDown = 0, speedUp = 0,
     downloaded = 0, uploaded = 0, isLive = False\<rparr>"

section \<open>The reconnect loop of the application component\<close>

text \<open>
  The stats-polling effect of \<^verbatim>\<open>AppContent\<close>. Its state is the React state
  \<^verbatim>\<open>retryCount\<close> and the two refs \<^verbatim>\<open>isRetryingRef\<close> and \<^verbatim>\<open>retryTimeoutRef\<close>.
  \<open>retryTimeout\<close> holds the delay of the timer that is pending, \<open>None\<close> when no timer is
  pending.

  The interval callback is \<^verbatim>\<open>async\<close>: it awaits \<^verbatim>\<open>getStats\<close> and then tests the
  \<^verbatim>\<open>retryCount\<close> that its closure captured, while it reads \<^verbatim>\<open>isRetryingRef.current\<close> live.
  \<open>inflight\<close> lists the callbacks that have started and await their statistics, each by the
  counter it captured. The timer's callback is \<^verbatim>\<open>async\<close> too (it awaits the stop and the
  play): \<open>restarting\<close> counts the timer callbacks that have started and not finished.

  The effect lists \<^verbatim>\<open>retryCount\<close> among its dependencies, so each change of the counter
  re-runs the effect: its cleanup (\<open>effectCleanup\<close>) clears the timer that is pending at
  that moment, and the callbacks of the new interval capture the new counter. A callback
  that is already in flight keeps the counter it captured.

  Two fields are bookkeeping of the model only, they are never read by a step:
  \<open>scheduled\<close> counts the calls of \<^verbatim>\<open>setTimeout\<close> that schedule a restart and \<open>restarts\<close>
  counts the restart attempts made (runs of the timer's callback to its end).
\<close>

definition MAX_RETRIES :: nat where
  "MAX_RETRIES = 5"

definition RETRY_INTERVALS :: "nat list" where
  "RETRY_INTERVALS = [3000, 5000, 10000, 15000, 30000]"

definition retryDelay :: "nat \<Rightarrow> nat" where
  "retryDelay n = RETRY_INTERVALS ! (min n (length RETRY_INTERVALS - 1))"

record reconnect =
  retryCount :: nat
  isRetrying :: bool
  retryTimeout :: "nat option"
  restarting :: nat
  inflight :: "nat list"
  scheduled :: nat
  restarts :: nat

definition initial :: reconnect where
  "initial = \<lparr>retryCount = 0, isRetrying = False, retryTimeout = None, restarting = 0,
     inflight = [], scheduled = 0, restarts = 0\<rparr>"

definition effectCleanup :: "reconnect \<Rightarrow> reconnect" where
  "effectCleanup s = s\<lparr>retryTimeout := None\<rparr>"

text \<open>
  The part of the interval callback that follows \<^verbatim>\<open>setStats(newStats)\<close>, for a callback
  whose closure captured the counter \<open>capturedCount\<close>. \<^verbatim>\<open>setRetryCount(0)\<close> on a counter that
  is already 0 changes no state, so the effect is not re-run.
\<close>

definition checkError :: "nat \<Rightarrow> StreamStats \<Rightarrow> reconnect \<Rightarrow> reconnect" where
  "checkError capturedCount newStats s =
     (if status newStats = ''error'' \<and> \<not> isRetrying s \<and> capturedCount < MAX_RETRIES
      then s\<lparr>isRetrying := True,
             retryTimeout := Some (retryDelay capturedCount),
             scheduled := scheduled s + 1\<rparr>
      else s)"

definition checkRecovered :: "nat \<Rightarrow> StreamStats \<Rightarrow> reconnect \<Rightarrow> reconnect" where
  "checkRecovered capturedCount newStats s =
     (if status newStats = ''dl'' \<and> peers newStats > 0 \<and> capturedCount > 0
      then (if retryCount s = 0 then s else effectCleanup (s\<lparr>retryCount := 0\<rparr>))
      else s)"

definition onSample :: "nat \<Rightarrow> StreamStats \<Rightarrow> reconnect \<Rightarrow> reconnect" where
  "onSample capturedCount newStats s =
     checkRecovered capturedCount newStats (checkError capturedCount newStats s)"

text \<open>
  The interval fires: a callback starts, with the counter of the current interval's
  closure, and awaits \<^verbatim>\<open>getStats\<close>. The statistics of the \<open>i\<close>-th callback in flight arrive:
  that callback resumes and ends.
\<close>

definition onTick :: "reconnect \<Rightarrow> reconnect" where
  "onTick s = s\<lparr>inflight := inflight s @ [retryCount s]\<rparr>"

definition onStats :: "nat \<Rightarrow> StreamStats \<Rightarrow> reconnect \<Rightarrow> reconnect" where
  "onStats i newStats s =
     (if i < length (inflight s)
      then onSample (inflight s ! i) newStats
             (s\<lparr>inflight := take i (inflight s) @ drop (Suc i) (inflight s)\<rparr>)
      else s)"

text \<open>
  The pending timer fires: its callback starts (stop the session, play the same content
  again). The callback ends: each of its three exits (restart succeeded, play reported a
  failure, an exception was caught) increments the counter with
  \<^verbatim>\<open>setRetryCount(prev => prev + 1)\<close>, and \<^verbatim>\<open>finally\<close> clears the guard.
\<close>

definition onTimer :: "reconnect \<Rightarrow> reconnect" where
  "onTimer s =
     (case retryTimeout s of
        None \<Rightarrow> s
      | Some d \<Rightarrow> s\<lparr>retryTimeout := None, restarting := restarting s + 1\<rparr>)"

datatype restart_outcome = Restarted | PlayFailed | RestartThrew

definition onRestartDone :: "restart_outcome \<Rightarrow> reconnect \<Rightarrow> reconnect" where
  "onRestartDone r s =
     (if restarting s = 0 then s
      else
        (case r of
           Restarted \<Rightarrow>
             effectCleanup (s\<lparr>retryCount := retryCount s + 1, isRetrying := False,
               restarting := restarting s - 1, restarts := restarts s + 1\<rparr>)
         | PlayFailed \<Rightarrow>
             effectCleanup (s\<lparr>retryCount := retryCount s + 1, isRetrying := False,
               restarting := restarting s - 1, restarts := restarts s + 1\<rparr>)
         | RestartThrew \<Rightarrow>
             effectCleanup (s\<lparr>retryCount := retryCount s + 1, isRetrying := False,
               restarting := restarting s - 1, restarts := restarts s + 1\<rparr>)))"

text \<open>
  The session becomes null (the first branch of the effect, and \<^verbatim>\<open>handleStop\<close>): the
  counter is reset, the pending timer is cleared, the guard is cleared.
\<close>

definition onSessionEnd :: "reconnect \<Rightarrow> reconnect" where
  "onSessionEnd s = s\<lparr>retryCount := 0, retryTimeout := None, isRetrying := False\<rparr>"

datatype event =
  Tick | StatsArrive nat StreamStats | TimerFires | RestartDone restart_outcome | SessionEnds

fun step :: "reconnect \<Rightarrow> event \<Rightarrow> reconnect" where
  "step s Tick = onTick s"
| "step s (StatsArrive i newStats) = onStats i newStats s"
| "step s TimerFires = onTimer s"
| "step s (RestartDone r) = onRestartDone r s"
| "step s SessionEnds = onSessionEnd s"

definition run :: "event list \<Rightarrow> reconnect \<Rightarrow> reconnect" where
  "run evs s = foldl step s evs"




section \<open>Requests to the engine's HTTP interface\<close>

text \<open>
  \<^verbatim>\<open>axios.get\<close> either rejects (no connection, the timeout given in the call, a status code
  outside 2xx) or resolves with the decoded body \<^verbatim>\<open>response.data\<close>. The code reads the body
  through optional chaining only, so a body is modelled by what those reads find: the member
  the caller looks for is absent (the body is not an object, is null, or has no truthy member
  of that name), or it is present with optional fields as the interface of the engine names
  them.
\<close>

datatype axios_error = NetworkError | Timeout | BadStatus nat

datatype 'a axios_result = Rejected axios_error | Response 'a

record stat_response =
  r_status :: "string option"
  r_peers :: "int option"
  r_speed_down :: "int option"
  r_speed_up :: "int option"
  r_downloaded :: "int option"
  r_uploaded :: "int option"
  r_is_live :: "int option"

datatype stat_body = NoResponse | WithResponse stat_response

record version_info =
  r_version :: "string option"
  r_platform :: "string option"

datatype version_body = NoResult | WithResult version_info

text \<open>
  JavaScript's \<^verbatim>\<open>x || d\<close> on an optional string and on an optional number: the default is
  taken when the value is undefined and also when it is falsy (the empty string, zero).
\<close>

definition orStr :: "string option \<Rightarrow> string \<Rightarrow> string" where
  "orStr x d = (case x of None \<Rightarrow> d | Some v \<Rightarrow> if v = [] then d else v)"

definition orNum :: "int option \<Rightarrow> int \<Rightarrow> int" where
  "orNum x d = (case x of None \<Rightarrow> d | Some v \<Rightarrow> if v = 0 then d else v)"

definition truthyStr :: "string option \<Rightarrow> bool" where
  "truthyStr x = (case x of None \<Rightarrow> False | Some v \<Rightarrow> v \<noteq> [])"

subsection \<open>getStreamStats\<close>

text \<open>
  The \<^verbatim>\<open>try\<close> block: the rejection of \<^verbatim>\<open>axios.get\<close> is the exception (\<open>Inl\<close>); a response
  is mapped field by field, \<^verbatim>\<open>result?.f\<close> being undefined for every field when
  \<^verbatim>\<open>response.data?.response\<close> is.
\<close>

definition noFields :: stat_response where
  "noFields = \<lparr>r_status = None, r_peers = None, r_speed_down = None, r_speed_up = None,
     r_downloaded = None, r_uploaded = None, r_is_live = None\<rparr>"

definition statsOf :: "stat_response \<Rightarrow> StreamStats" where
  "statsOf result =
     \<lparr>status = orStr (r_status result) ''unknown'',
      peers = orNum (r_peers result) 0,
      speedDown = orNum (r_speed_down result) 0 * 1024,
      speedUp = orNum (r_speed_up result) 0 * 1024,
      downloaded = orNum (r_downloaded result) 0,
      uploaded = orNum (r_uploaded result) 0,
      isLive = (r_is_live result = Some 1)\<rparr>"

definition getStreamStats_try :: "stat_body axios_result \<Rightarrow> axios_error + StreamStats" where
  "getStreamStats_try r =
     (case r of
        Rejected e \<Rightarrow> Inl e
      | Response NoResponse \<Rightarrow> Inr (statsOf noFields)
      | Response (WithResponse result) \<Rightarrow> Inr (statsOf result))"

definition getStreamStats :: "stat_body axios_result \<Rightarrow> axios_error + StreamStats" where
  "getStreamStats r =
     (case getStreamStats_try r of
        Inl e \<Rightarrow> Inr errorStats
      | Inr st \<Rightarrow> Inr st)"

subsection \<open>getStatus, the readiness poll and ensureRunning\<close>

record EngineStatus =
  running :: bool
  version :: "string option"
  platform :: "string option"
  error :: "string option"

definition notRunning :: EngineStatus where
  "notRunning = \<lparr>running = False, version = None, platform = None, error = None\<rparr>"

definition getStatus :: "version_body axios_result \<Rightarrow> EngineStatus" where
  "getStatus r =
     (case r of
        Rejected e \<Rightarrow> notRunning
      | Response NoResult \<Rightarrow> notRunning
      | Response (WithResult result) \<Rightarrow>
          \<lparr>running = True, version = r_version result, platform = r_platform result,
           error = None\<rparr>)"

text \<open>
  The test of one poll of \<^verbatim>\<open>waitForEngine\<close>: \<^verbatim>\<open>response.data?.result?.version\<close> is truthy.
  A rejected request is caught and counts as not ready.
\<close>

definition engineReady :: "version_body axios_result \<Rightarrow> bool" where
  "engineReady r =
     (case r of
        Rejected e \<Rightarrow> False
      | Response NoResult \<Rightarrow> False
      | Response (WithResult result) \<Rightarrow> truthyStr (r_version result))"

definition ENGINE_START_TIMEOUT :: nat where
  "ENGINE_START_TIMEOUT = 30000"

text \<open>
  \<^verbatim>\<open>waitForEngine\<close>, on a clock in milliseconds since \<^verbatim>\<open>startTime\<close>. \<open>poll t\<close> is the answer
  to the request sent at time \<open>t\<close> and \<open>latency t\<close> the time that request takes; the loop
  then sleeps 500 ms. The result is \<open>Inl\<close> of the message of the error thrown, or \<open>Inr ()\<close>.
\<close>

function waitForEngine ::
  "(nat \<Rightarrow> version_body axios_result) \<Rightarrow> (nat \<Rightarrow> nat) \<Rightarrow> nat \<Rightarrow> string + unit" where
  "waitForEngine poll latency elapsed =
     (if elapsed < ENGINE_START_TIMEOUT
      then (if engineReady (poll elapsed) then Inr ()
            else waitForEngine poll latency (elapsed + latency elapsed + 500))
      else Inl ''Engine startup timeout'')"
  by pat_completeness auto
termination
  by (relation "measure (\<lambda>(poll, latency, elapsed). ENGINE_START_TIMEOUT - elapsed)") auto

declare waitForEngine.simps [simp del]

text \<open>
  \<^verbatim>\<open>ensureRunning\<close> after its wait for a start in progress: it probes the status and
  either returns or calls \<^verbatim>\<open>start\<close>.
\<close>

datatype ensure_action = ReturnRunning | ThenStart

definition ensureRunning :: "version_body axios_result \<Rightarrow> ensure_action" where
  "ensureRunning probe = (if running (getStatus probe) then ReturnRunning else ThenStart)"

section \<open>The IPC handlers of the playback interface\<close>

text \<open>
  The handlers receive their argument from the renderer process; the validators take it as
  \<^verbatim>\<open>unknown\<close> and test \<^verbatim>\<open>typeof x === 'string'\<close> first.
\<close>

datatype ipc_arg = Str string | NotAString

text \<open>
  \<^verbatim>\<open>CONTENT_ID_REGEX = /^[a-fA-F0-9]{40}$/\<close>. The pattern has no flags, so \<^verbatim>\<open>$\<close> matches at
  the end of the input only. \<open>matchHex n s\<close> matches \<^verbatim>\<open>[a-fA-F0-9]{n}$\<close> at the start of \<open>s\<close>.
\<close>

definition hexChar :: "char \<Rightarrow> bool" where
  "hexChar c = (c \<in> set ''abcdef'' \<or> c \<in> set ''ABCDEF'' \<or> c \<in> set ''0123456789'')"

fun matchHex :: "nat \<Rightarrow> string \<Rightarrow> bool" where
  "matchHex 0 s = (s = [])"
| "matchHex (Suc n) [] = False"
| "matchHex (Suc n) (c # cs) = (hexChar c \<and> matchHex n cs)"

definition CONTENT_ID_REGEX_test :: "string \<Rightarrow> bool" where
  "CONTENT_ID_REGEX_test s = matchHex 40 s"

definition ALLOWED_API_HOST :: string where
  "ALLOWED_API_HOST = ''http://127.0.0.1:6878/''"

definition startsWith :: "string \<Rightarrow> string \<Rightarrow> bool" where
  "startsWith s p = (take (length p) s = p)"

definition isValidContentId :: "ipc_arg \<Rightarrow> bool" where
  "isValidContentId contentId =
     (case contentId of NotAString \<Rightarrow> False | Str s \<Rightarrow> CONTENT_ID_REGEX_test s)"

definition isValidApiUrl :: "ipc_arg \<Rightarrow> bool" where
  "isValidApiUrl url =
     (case url of NotAString \<Rightarrow> False | Str s \<Rightarrow> startsWith s ALLOWED_API_HOST)"

text \<open>
  A handler returns its result together with the calls it made on the engine manager, in
  order. Those methods are the only way a handler reaches the engine or the network, and
  they are parameters here: \<open>startPlayback\<close> returns the session or the message of the error
  it throws, \<open>net\<close> is the answer of the HTTP interface to a GET of a URL.
\<close>

record PlaybackSession =
  ps_playbackUrl :: string
  ps_statUrl :: string
  ps_commandUrl :: string
  ps_eventUrl :: string
  ps_infoHash :: string
  ps_sessionId :: string
  ps_isLive :: bool

datatype engine_call = StartPlayback string | GetStreamStats string | StopPlayback string

record play_result =
  play_success :: bool
  play_error :: "string option"
  play_session :: "PlaybackSession option"

record stop_result =
  stop_success :: bool
  stop_error :: "string option"

text \<open>
  After a validator has accepted the argument its type guard makes it a string; \<open>asString\<close>
  reads that string.
\<close>

definition asString :: "ipc_arg \<Rightarrow> string" where
  "asString x = (case x of Str s \<Rightarrow> s | NotAString \<Rightarrow> [])"

definition acestream_play ::
  "(string \<Rightarrow> string + PlaybackSession) \<Rightarrow> ipc_arg \<Rightarrow> play_result \<times> engine_call list" where
  "acestream_play startPlayback contentId =
     (if \<not> isValidContentId contentId
      then (\<lparr>play_success = False,
              play_error = Some ''Invalid content ID format. Expected 40-character hex string.'',
              play_session = None\<rparr>, [])
      else (case startPlayback (asString contentId) of
              Inr session \<Rightarrow>
                (\<lparr>play_success = True, play_error = None, play_session = Some session\<rparr>,
                 [StartPlayback (asString contentId)])
            | Inl message \<Rightarrow>
                (\<lparr>play_success = False, play_error = Some message, play_session = None\<rparr>,
                 [StartPlayback (asString contentId)])))"

definition acestream_stats ::
  "(string \<Rightarrow> stat_body axios_result) \<Rightarrow> ipc_arg \<Rightarrow> (axios_error + StreamStats) \<times> engine_call list" where
  "acestream_stats net statUrl =
     (if \<not> isValidApiUrl statUrl
      then (Inr \<lparr>status = ''error'', peers = 0, speedDown = 0, speedUp = 0,
                 downloaded = 0, uploaded = 0, isLive = False\<rparr>, [])
      else (getStreamStats (net (asString statUrl)), [GetStreamStats (asString statUrl)]))"

text \<open>
  \<^verbatim>\<open>stopPlayback\<close> requests \<^verbatim>\<open>commandUrl?method=stop\<close> and logs a failure of the request; it
  returns nothing either way.
\<close>

definition stopPlayback :: "(string \<Rightarrow> unit axios_result) \<Rightarrow> string \<Rightarrow> axios_error + unit" where
  "stopPlayback net commandUrl =
     (case net (commandUrl @ ''?method=stop'') of
        Rejected e \<Rightarrow> Inr ()
      | Response u \<Rightarrow> Inr ())"

definition acestream_stop ::
  "(string \<Rightarrow> unit axios_result) \<Rightarrow> ipc_arg \<Rightarrow> (axios_error + stop_result) \<times> engine_call list" where
  "acestream_stop net commandUrl =
     (if \<not> isValidApiUrl commandUrl
      then (Inr \<lparr>stop_success = False, stop_error = Some ''Invalid command URL''\<rparr>, [])
      else (case stopPlayback net (asString commandUrl) of
              Inl e \<Rightarrow> (Inl e, [StopPlayback (asString commandUrl)])
            | Inr u \<Rightarrow>
                (Inr \<lparr>stop_success = True, stop_error = None\<rparr>,
                 [StopPlayback (asString commandUrl)])))"

section \<open>Killing the process tree of the engine\<close>

text \<open>
  The processes that are alive form a forest: a process with the processes whose parent it
  is. \<^verbatim>\<open>getPlatformFolder\<close> throws on every platform but these three, so the manager has a
  child process on these only.
\<close>

type_synonym pid = nat

datatype ptree = Proc pid "ptree list"

datatype os_platform = Win32 | Linux | Darwin

datatype kill_error = ESRCH | TaskkillFailed

fun root_pid :: "ptree \<Rightarrow> pid" where
  "root_pid (Proc p cs) = p"

fun find_proc :: "pid \<Rightarrow> ptree \<Rightarrow> ptree option"
  and find_procs :: "pid \<Rightarrow> ptree list \<Rightarrow> ptree option" where
  "find_proc p (Proc q cs) = (if p = q then Some (Proc q cs) else find_procs p cs)"
| "find_procs p [] = None"
| "find_procs p (t # ts) =
     (case find_proc p t of Some r \<Rightarrow> Some r | None \<Rightarrow> find_procs p ts)"

text \<open>
  \<open>prunes p\<close> takes the process \<open>p\<close> and all its descendants out of the forest.
\<close>

fun prune :: "pid \<Rightarrow> ptree \<Rightarrow> ptree list"
  and prunes :: "pid \<Rightarrow> ptree list \<Rightarrow> ptree list" where
  "prune p (Proc q cs) = (if p = q then [] else [Proc q (prunes p cs)])"
| "prunes p [] = []"
| "prunes p (t # ts) = prune p t @ prunes p ts"

text \<open>
  The state of the operating system: the forest of live processes and, as a log, the pids
  that \<^verbatim>\<open>process.kill(pid, 'SIGKILL')\<close> was called on, in order, whether the call succeeded or
  threw.
\<close>

record os =
  procs :: "ptree list"
  signals :: "pid list"

text \<open>
  \<^verbatim>\<open>getChildProcesses\<close> on the process \<open>parentPid\<close> as the listing tool sees it. The tool
  (\<^verbatim>\<open>pgrep -P\<close> on macOS, \<^verbatim>\<open>ps --ppid\<close> on Linux) exits with a failure when it finds no
  child: \<^verbatim>\<open>execSync\<close> throws, the \<^verbatim>\<open>catch\<close> drops the exception and the list is still empty. Each
  pid printed is pushed, followed by the result of the recursive call on it.
\<close>

fun getChildProcesses :: "os_platform \<Rightarrow> ptree \<Rightarrow> pid list" where
  "getChildProcesses plat (Proc parentPid cs) =
     (if plat = Darwin \<or> plat = Linux
      then (case cs of
              [] \<Rightarrow> []
            | c # cs' \<Rightarrow> concat (map (\<lambda>t. root_pid t # getChildProcesses plat t) cs))
      else [])"

text \<open>
  \<^verbatim>\<open>process.kill\<close> throws \<^verbatim>\<open>ESRCH\<close> when there is no such process. The second component is
  the exception thrown, if any. The children of a killed process stay alive as orphans, at
  the top of the forest. \<^verbatim>\<open>taskkill /T /F\<close> ends a process with all its descendants.
\<close>

definition process_kill :: "pid \<Rightarrow> os \<Rightarrow> os \<times> kill_error option" where
  "process_kill p s =
     (case find_procs p (procs s) of
        None \<Rightarrow> (s\<lparr>signals := signals s @ [p]\<rparr>, Some ESRCH)
      | Some (Proc q orphans) \<Rightarrow>
          (s\<lparr>procs := prunes p (procs s) @ orphans, signals := signals s @ [p]\<rparr>, None))"

definition taskkill :: "pid \<Rightarrow> os \<Rightarrow> os \<times> kill_error option" where
  "taskkill p s =
     (case find_procs p (procs s) of
        None \<Rightarrow> (s, Some TaskkillFailed)
      | Some t \<Rightarrow> (s\<lparr>procs := prunes p (procs s)\<rparr>, None))"

text \<open>
  A statement that may throw yields the new state and the exception thrown, if any.
  \<open>andThen\<close> is sequencing: the second statement runs only when the first has not thrown.
  \<open>tryCatch\<close> is \<^verbatim>\<open>try { ... } catch (e) { }\<close> with a handler that changes nothing (it is
  empty, or logs to the console).
\<close>

definition andThen ::
  "os \<times> kill_error option \<Rightarrow> (os \<Rightarrow> os \<times> kill_error option) \<Rightarrow> os \<times> kill_error option" where
  "andThen r f = (case r of (s, Some e) \<Rightarrow> (s, Some e) | (s, None) \<Rightarrow> f s)"

definition tryCatch :: "os \<times> kill_error option \<Rightarrow> os \<times> kill_error option" where
  "tryCatch r = (case r of (s, Some e) \<Rightarrow> (s, None) | (s, None) \<Rightarrow> (s, None))"

text \<open>The loop over \<^verbatim>\<open>childPids\<close>, each \<^verbatim>\<open>process.kill\<close> in its own \<^verbatim>\<open>try\<close>.\<close>

fun killEach :: "pid list \<Rightarrow> os \<Rightarrow> os \<times> kill_error option" where
  "killEach [] s = (s, None)"
| "killEach (childPid # rest) s =
     andThen (tryCatch (process_kill childPid s)) (killEach rest)"

text \<open>
  \<^verbatim>\<open>killProcessTree\<close>: the outer \<^verbatim>\<open>try\<close>, whose handler logs; on Windows \<^verbatim>\<open>taskkill\<close>;
  otherwise the \<^verbatim>\<open>try\<close> around the listing of the children and the loop, then the
  \<^verbatim>\<open>try\<close> around the kill of the parent. The listing of a pid that is not alive fails like
  the listing of a process without children. The second component of the result is the
  exception that leaves the function, if any.
\<close>

definition killProcessTree :: "os_platform \<Rightarrow> pid \<Rightarrow> os \<Rightarrow> os \<times> kill_error option" where
  "killProcessTree plat pid s =
     tryCatch
       (if plat = Win32
        then taskkill pid s
        else
          andThen
            (tryCatch
               (killEach
                  (case find_procs pid (procs s) of
                     None \<Rightarrow> []
                   | Some t \<Rightarrow> getChildProcesses plat t)
                  s))
            (\<lambda>s1. tryCatch (process_kill pid s1)))"

text \<open>The descendants of a process, and the place of a pid in the log of signals.\<close>

fun descendants :: "ptree \<Rightarrow> pid set" where
  "descendants (Proc p cs) = (\<Union>c \<in> set cs. insert (root_pid c) (descendants c))"

fun indexOf :: "pid \<Rightarrow> pid list \<Rightarrow> nat" where
  "indexOf x [] = 0"
| "indexOf x (y # ys) = (if x = y then 0 else Suc (indexOf x ys))"

section \<open>Concurrent calls of start\<close>

text \<open>
  \<^verbatim>\<open>start\<close> is an \<^verbatim>\<open>async\<close> method on the single-threaded event loop: a call runs until its
  next \<^verbatim>\<open>await\<close>, and other calls run in between. A call is identified by a number; the
  promise of the \<^verbatim>\<open>_doStart\<close> that a call creates carries the number of that call.
  A call is suspended at \<^verbatim>\<open>await this.getStatus()\<close>, or at \<^verbatim>\<open>await this.startPromise\<close>, or
  has returned the promise it found in \<^verbatim>\<open>startPromise\<close>, or has finished.
  \<open>spawnCount\<close> counts the calls of \<^verbatim>\<open>spawn\<close>; no step reads it but to name the new process.
\<close>

datatype outcome = Pending | Fulfilled | Failed string

datatype caller_pc =
  AwaitingStatus | AwaitingStart nat | ReturnedPromise nat | Finished "string + unit"

record manager =
  engineProcess :: "nat option"
  isStarting :: bool
  startPromise :: "nat option"
  promises :: "nat \<Rightarrow> outcome option"
  callers :: "nat \<Rightarrow> caller_pc option"
  spawnCount :: nat

record start_env =
  env_platform :: os_platform
  executable :: string
  executableExists :: bool
  winePath :: "string option"

definition newManager :: manager where
  "newManager = \<lparr>engineProcess = None, isStarting = False, startPromise = None,
     promises = (\<lambda>p. None), callers = (\<lambda>c. None), spawnCount = 0\<rparr>"

definition wineMissing :: string where
  "wineMissing = ''Wine not installed. Please install Wine Crossover: '' @
     ''brew tap gcenx/wine && brew install --cask wine-crossover''"

text \<open>
  \<^verbatim>\<open>_doStart\<close> up to its \<^verbatim>\<open>await this.waitForEngine()\<close>. A \<^verbatim>\<open>throw\<close> before the spawn runs
  \<^verbatim>\<open>finally\<close> and rejects the promise \<open>p\<close>; otherwise the process is spawned and \<open>p\<close> is
  pending.
\<close>

definition doStart :: "start_env \<Rightarrow> nat \<Rightarrow> manager \<Rightarrow> manager" where
  "doStart env p m =
     (if \<not> executableExists env
      then m\<lparr>isStarting := False,
             promises := (promises m)(p \<mapsto> Failed (''Engine executable not found: '' @ executable env))\<rparr>
      else if env_platform env = Darwin \<and> \<not> truthyStr (winePath env)
      then m\<lparr>isStarting := False,
             promises := (promises m)(p \<mapsto> Failed wineMissing)\<rparr>
      else m\<lparr>isStarting := True,
             engineProcess := Some (spawnCount m),
             spawnCount := spawnCount m + 1,
             promises := (promises m)(p \<mapsto> Pending)\<rparr>)"

text \<open>
  The events of the loop: a call of \<^verbatim>\<open>start\<close>; the answer to the status probe of a call;
  the end of the \<^verbatim>\<open>waitForEngine\<close> of a \<^verbatim>\<open>_doStart\<close>, with what it returned or threw. The
  continuation of the call that awaits a promise runs right after the promise settles.
\<close>

datatype start_event =
  CallStart nat
| StatusArrives nat "version_body axios_result"
| EngineSettles nat "string + unit"

definition continueStart :: "nat \<Rightarrow> manager \<Rightarrow> manager" where
  "continueStart c m =
     (case promises m c of
        Some (Failed message) \<Rightarrow>
          m\<lparr>startPromise := None, callers := (callers m)(c \<mapsto> Finished (Inl message))\<rparr>
      | Some Fulfilled \<Rightarrow>
          m\<lparr>startPromise := None, callers := (callers m)(c \<mapsto> Finished (Inr ()))\<rparr>
      | Some Pending \<Rightarrow>
          m\<lparr>startPromise := Some c, callers := (callers m)(c \<mapsto> AwaitingStart c)\<rparr>
      | None \<Rightarrow> m)"

fun start_step :: "start_env \<Rightarrow> manager \<Rightarrow> start_event \<Rightarrow> manager" where
  "start_step env m (CallStart c) =
     (case callers m c of
        Some pc \<Rightarrow> m
      | None \<Rightarrow>
          (case startPromise m of
             Some p \<Rightarrow> m\<lparr>callers := (callers m)(c \<mapsto> ReturnedPromise p)\<rparr>
           | None \<Rightarrow> m\<lparr>callers := (callers m)(c \<mapsto> AwaitingStatus)\<rparr>))"
| "start_step env m (StatusArrives c probe) =
     (if callers m c = Some AwaitingStatus
      then (if running (getStatus probe)
            then m\<lparr>callers := (callers m)(c \<mapsto> Finished (Inr ()))\<rparr>
            else continueStart c (doStart env c m))
      else m)"
| "start_step env m (EngineSettles p r) =
     (if promises m p = Some Pending
      then continueStart p
             (m\<lparr>isStarting := False,
                promises := (promises m)(p \<mapsto> (case r of Inl message \<Rightarrow> Failed message
                                                 | Inr u \<Rightarrow> Fulfilled))\<rparr>)
      else m)"

definition start_run :: "start_env \<Rightarrow> start_event list \<Rightarrow> manager \<Rightarrow> manager" where
  "start_run env evs m = foldl (start_step env) m evs"

text \<open>What the caller \<open>c\<close> sees of the promise that its call of \<^verbatim>\<open>start\<close> returned.\<close>

definition observed :: "manager \<Rightarrow> nat \<Rightarrow> outcome option" where
  "observed m c =
     (case callers m c of
        None \<Rightarrow> None
      | Some AwaitingStatus \<Rightarrow> Some Pending
      | Some (AwaitingStart p) \<Rightarrow> Some Pending
      | Some (ReturnedPromise p) \<Rightarrow> promises m p
      | Some (Finished r) \<Rightarrow> Some (case r of Inl message \<Rightarrow> Failed message | Inr u \<Rightarrow> Fulfilled))"

section \<open>Properties of the reconnect loop\<close>







lemma onSample_error_idle:
  "\<not> isRetrying s \<Longrightarrow> k < MAX_RETRIES \<Longrightarrow>
   onSample k errorStats s =
     s\<lparr>isRetrying := True, retryTimeout := Some (retryDelay k), scheduled := scheduled s + 1\<rparr>"
  by (simp add: onSample_def checkError_def checkRecovered_def errorStats_def)




lemma onTimer_pending:
  "retryTimeout s = Some d \<Longrightarrow>
   onTimer s = s\<lparr>retryTimeout := None, restarting := restarting s + 1\<rparr>"
  by (simp add: onTimer_def)

lemma onRestartDone_running:
  "restarting s > 0 \<Longrightarrow>
   onRestartDone r s =
     s\<lparr>retryCount := retryCount s + 1, isRetrying := False,
       restarting := restarting s - 1, restarts := restarts s + 1, retryTimeout := None\<rparr>"
  by (cases r) (simp_all add: onRestartDone_def effectCleanup_def)

lemma run_Nil: "run [] s = s"
  by (simp add: run_def)

lemma run_Cons: "run (e # evs) s = run evs (step s e)"
  by (simp add: run_def)

lemma run_append: "run (xs @ ys) s = run ys (run xs s)"
  by (simp add: run_def)

lemma poll_current:
  "inflight s = [] \<Longrightarrow> run [Tick, StatsArrive 0 st] s = onSample (retryCount s) st s"
proof -
  assume e: "inflight s = []"
  have same: "s\<lparr>inflight := []\<rparr> = s"
    using e by simp
  have "run [Tick, StatsArrive 0 st] s = onSample (retryCount s) st (s\<lparr>inflight := []\<rparr>)"
    using e by (simp add: run_Cons run_Nil onStats_def onTick_def)
  then show ?thesis
    by (simp only: same)
qed


lemma round_trip:
  assumes "inflight s = []" and "\<not> isRetrying s" and "retryCount s < MAX_RETRIES"
    and "restarting s = 0"
  shows "run [Tick, StatsArrive 0 errorStats, TimerFires, RestartDone r] s =
     s\<lparr>retryCount := retryCount s + 1, isRetrying := False, restarts := restarts s + 1,
       retryTimeout := None, scheduled := scheduled s + 1\<rparr>"
proof -
  have 1: "run [Tick, StatsArrive 0 errorStats] s =
      s\<lparr>isRetrying := True, retryTimeout := Some (retryDelay (retryCount s)),
        scheduled := scheduled s + 1\<rparr>"
    using assms by (simp only: poll_current) (simp add: onSample_error_idle)
  have "run [Tick, StatsArrive 0 errorStats, TimerFires, RestartDone r] s =
      run [TimerFires, RestartDone r] (run [Tick, StatsArrive 0 errorStats] s)"
    by (simp add: run_Cons run_Nil)
  then show ?thesis
    unfolding 1 using assms
    by (simp add: run_Cons run_Nil onTimer_pending onRestartDone_running)
qed

lemma concat_replicate_snoc: "concat (replicate (Suc n) xs) = concat (replicate n xs) @ xs"
  by (induction n) simp_all

lemma rounds:
  "n \<le> MAX_RETRIES \<Longrightarrow>
   run (concat (replicate n [Tick, StatsArrive 0 errorStats, TimerFires, RestartDone r])) initial =
     \<lparr>retryCount = n, isRetrying = False, retryTimeout = None, restarting = 0, inflight = [],
      scheduled = n, restarts = n\<rparr>"
proof (induction n)
  case 0
  then show ?case by (simp add: run_Nil initial_def)
next
  case (Suc n)
  then have IH: "run (concat (replicate n [Tick, StatsArrive 0 errorStats, TimerFires, RestartDone r])) initial =
     \<lparr>retryCount = n, isRetrying = False, retryTimeout = None, restarting = 0, inflight = [],
      scheduled = n, restarts = n\<rparr>"
    and n: "n < MAX_RETRIES" by simp_all
  show ?case
    unfolding concat_replicate_snoc run_append IH
    using n by (subst round_trip) simp_all
qed


lemma stale_prefix:
  "run [Tick, StatsArrive 0 errorStats, Tick, TimerFires, RestartDone r] initial =
     \<lparr>retryCount = 1, isRetrying = False, retryTimeout = None, restarting = 0, inflight = [0],
      scheduled = 1, restarts = 1\<rparr>"
proof -
  have 1: "run [Tick, StatsArrive 0 errorStats] initial =
      initial\<lparr>isRetrying := True, retryTimeout := Some 3000, scheduled := 1\<rparr>"
    by (simp only: poll_current initial_def reconnect.simps)
       (simp add: onSample_error_idle MAX_RETRIES_def retryDelay_def RETRY_INTERVALS_def)
  have "run [Tick, StatsArrive 0 errorStats, Tick, TimerFires, RestartDone r] initial =
      run [Tick, TimerFires, RestartDone r] (run [Tick, StatsArrive 0 errorStats] initial)"
    by (simp add: run_Cons run_Nil)
  then show ?thesis
    unfolding 1
    by (simp add: run_Cons run_Nil onTick_def onTimer_pending onRestartDone_running initial_def)
qed

lemma retryDelay_table:
  "RETRY_INTERVALS = [3000, 5000, 10000, 15000, 30000]
   \<and> (n < 5 \<longrightarrow> retryDelay n = RETRY_INTERVALS ! n)
   \<and> (4 \<le> n \<longrightarrow> retryDelay n = 30000)
   \<and> (status st = ''error'' \<and> \<not> isRetrying s \<and> k < MAX_RETRIES \<longrightarrow>
        retryTimeout (onSample k st s) = Some (retryDelay k))"
  by (auto simp add: retryDelay_def RETRY_INTERVALS_def min_def onSample_def checkError_def
        checkRecovered_def)

lemma recovery_resets_when_read_positive:
  "status st = ''dl'' \<Longrightarrow> peers st > 0 \<Longrightarrow> k > 0 \<Longrightarrow> retryCount (onSample k st s) = 0"
  by (simp add: onSample_def checkError_def checkRecovered_def effectCleanup_def)


text \<open>
  A callback in flight across the fifth restart has captured the counter 4: when it resumes
  with an error sample it schedules a sixth restart, and the counter reaches 6.
\<close>

lemma stale_callback_schedules_sixth:
  "retryCount (run (concat (replicate 4 [Tick, StatsArrive 0 errorStats, TimerFires, RestartDone r])
      @ [Tick, StatsArrive 0 errorStats, Tick, TimerFires, RestartDone r,
         StatsArrive 0 errorStats, TimerFires, RestartDone r]) initial) = 6
   \<and> restarts (run (concat (replicate 4 [Tick, StatsArrive 0 errorStats, TimerFires, RestartDone r])
      @ [Tick, StatsArrive 0 errorStats, Tick, TimerFires, RestartDone r,
         StatsArrive 0 errorStats, TimerFires, RestartDone r]) initial) = 6"
proof -
  let ?s4 = "\<lparr>retryCount = 4, isRetrying = False, retryTimeout = None, restarting = 0,
      inflight = [], scheduled = 4, restarts = 4\<rparr>"
  have 4: "run (concat (replicate 4 [Tick, StatsArrive 0 errorStats, TimerFires, RestartDone r]))
      initial = ?s4"
    using rounds [of 4 r] by (simp add: MAX_RETRIES_def)
  have a: "run [Tick, StatsArrive 0 errorStats] ?s4 =
      ?s4\<lparr>isRetrying := True, retryTimeout := Some (retryDelay 4), scheduled := 5\<rparr>"
    by (simp only: poll_current reconnect.simps)
       (simp add: onSample_error_idle MAX_RETRIES_def)
  have b: "run [Tick, TimerFires, RestartDone r]
      (?s4\<lparr>isRetrying := True, retryTimeout := Some (retryDelay 4), scheduled := 5\<rparr>) =
      \<lparr>retryCount = 5, isRetrying = False, retryTimeout = None, restarting = 0,
      inflight = [4], scheduled = 5, restarts = 5\<rparr>"
    by (simp add: run_Cons run_Nil onTick_def onTimer_pending onRestartDone_running)
  have c: "run [StatsArrive 0 errorStats, TimerFires, RestartDone r]
      \<lparr>retryCount = 5, isRetrying = False, retryTimeout = None, restarting = 0,
      inflight = [4], scheduled = 5, restarts = 5\<rparr> =
      \<lparr>retryCount = 6, isRetrying = False, retryTimeout = None, restarting = 0,
      inflight = [], scheduled = 6, restarts = 6\<rparr>"
    by (simp add: run_Cons run_Nil onStats_def onSample_error_idle MAX_RETRIES_def
          onTimer_pending onRestartDone_running)
  have split: "[Tick, StatsArrive 0 errorStats, Tick, TimerFires, RestartDone r,
         StatsArrive 0 errorStats, TimerFires, RestartDone r] =
      [Tick, StatsArrive 0 errorStats] @ [Tick, TimerFires, RestartDone r]
        @ [StatsArrive 0 errorStats, TimerFires, RestartDone r]"
    by simp
  show ?thesis
    unfolding split run_append 4 a b c by simp
qed

text \<open>
  Claim C3. The schedule itself is as the claim says (\<open>retryDelay_table\<close>), but the delay
  is indexed by the counter that the callback captured, not by the attempt counter. A
  callback that started while the counter was 0 and resumes, with an error sample, after the
  first restart has made the counter 1, schedules the second attempt after 3000 ms; the
  entry of the schedule for the counter 1 is 5000 ms.
\<close>

theorem stale_callback_schedules_first_delay:
  "RETRY_INTERVALS = [3000, 5000, 10000, 15000, 30000]
   \<and> retryDelay 1 = 5000
   \<and> retryCount (run [Tick, StatsArrive 0 errorStats, Tick, TimerFires, RestartDone PlayFailed]
        initial) = 1
   \<and> inflight (run [Tick, StatsArrive 0 errorStats, Tick, TimerFires, RestartDone PlayFailed]
        initial) = [0]
   \<and> retryCount (run [Tick, StatsArrive 0 errorStats, Tick, TimerFires, RestartDone PlayFailed,
        StatsArrive 0 errorStats] initial) = 1
   \<and> retryTimeout (run [Tick, StatsArrive 0 errorStats, Tick, TimerFires, RestartDone PlayFailed,
        StatsArrive 0 errorStats] initial) = Some 3000"
proof -
  have split: "[Tick, StatsArrive 0 errorStats, Tick, TimerFires, RestartDone PlayFailed,
        StatsArrive 0 errorStats] =
      [Tick, StatsArrive 0 errorStats, Tick, TimerFires, RestartDone PlayFailed]
        @ [StatsArrive 0 errorStats]"
    by simp
  have last: "\<not> isRetrying s \<Longrightarrow> onSample 0 errorStats s =
      s\<lparr>isRetrying := True, retryTimeout := Some 3000, scheduled := scheduled s + 1\<rparr>" for s
    by (subst onSample_error_idle)
       (simp_all add: MAX_RETRIES_def retryDelay_def RETRY_INTERVALS_def)
  have tbl: "RETRY_INTERVALS = [3000, 5000, 10000, 15000, 30000] \<and> retryDelay 1 = 5000"
    by (simp add: retryDelay_def RETRY_INTERVALS_def)
  show ?thesis
    unfolding split run_append stale_prefix
    using tbl by (simp add: run_Cons run_Nil onStats_def last)
qed

text \<open>
  Claim C4. A sample with status downloading, no peers and no download speed leaves the
  state of the loop as it is, whatever counter its callback captured, so it schedules no
  restart; and whenever a sample schedules a restart (the count of scheduled restarts
  changes, the guard becomes set, or a timer becomes pending), the status of that sample is
  the error status.
\<close>

theorem searching_sample_schedules_nothing:
  "(status st = ''dl'' \<and> peers st = 0 \<and> speedDown st = 0 \<longrightarrow> onSample k st s = s)
   \<and> (scheduled (onSample k st s) \<noteq> scheduled s
        \<or> (isRetrying (onSample k st s) \<and> \<not> isRetrying s)
        \<or> (retryTimeout (onSample k st s) \<noteq> None \<and> retryTimeout s = None)
       \<longrightarrow> status st = ''error'')"
  by (auto simp: onSample_def checkError_def checkRecovered_def effectCleanup_def)

theorem searching_sample_schedules_nothing_witness:
  "status (errorStats\<lparr>status := ''dl''\<rparr>) = ''dl'' \<and> peers (errorStats\<lparr>status := ''dl''\<rparr>) = 0
   \<and> speedDown (errorStats\<lparr>status := ''dl''\<rparr>) = 0
   \<and> onSample 0 (errorStats\<lparr>status := ''dl''\<rparr>) initial = initial
   \<and> scheduled (onSample 0 errorStats initial) \<noteq> scheduled initial
   \<and> status errorStats = ''error''"
  using searching_sample_schedules_nothing [of "errorStats\<lparr>status := ''dl''\<rparr>" 0 initial]
    searching_sample_schedules_nothing [of errorStats 0 initial]
  by (simp add: errorStats_def initial_def onSample_def checkError_def checkRecovered_def
        MAX_RETRIES_def)

text \<open>
  Claim C5. The reset tests the counter that the callback captured, not the attempt
  counter. A callback that started while the counter was 0 and resumes, with a sample of
  healthy delivery, after the first restart has made the counter 1, leaves the counter
  at 1.
\<close>

theorem stale_callback_misses_recovery:
  "retryCount (run [Tick, StatsArrive 0 errorStats, Tick, TimerFires, RestartDone Restarted]
        initial) = 1
   \<and> inflight (run [Tick, StatsArrive 0 errorStats, Tick, TimerFires, RestartDone Restarted]
        initial) = [0]
   \<and> status \<lparr>status = ''dl'', peers = 5, speedDown = 204800, speedUp = 0,
        downloaded = 0, uploaded = 0, isLive = True\<rparr> = ''dl''
   \<and> peers \<lparr>status = ''dl'', peers = 5, speedDown = 204800, speedUp = 0,
        downloaded = 0, uploaded = 0, isLive = True\<rparr> > 0
   \<and> retryCount (run [Tick, StatsArrive 0 errorStats, Tick, TimerFires, RestartDone Restarted,
        StatsArrive 0 \<lparr>status = ''dl'', peers = 5, speedDown = 204800, speedUp = 0,
          downloaded = 0, uploaded = 0, isLive = True\<rparr>] initial) = 1"
proof -
  let ?healthy = "\<lparr>status = ''dl'', peers = 5, speedDown = 204800, speedUp = 0,
          downloaded = 0, uploaded = 0, isLive = True\<rparr>"
  have split: "[Tick, StatsArrive 0 errorStats, Tick, TimerFires, RestartDone Restarted,
        StatsArrive 0 ?healthy] =
      [Tick, StatsArrive 0 errorStats, Tick, TimerFires, RestartDone Restarted]
        @ [StatsArrive 0 ?healthy]"
    by simp
  have last: "onSample 0 ?healthy s = s" for s
    by (simp add: onSample_def checkError_def checkRecovered_def)
  show ?thesis
    unfolding split run_append stale_prefix
    by (simp add: run_Cons run_Nil onStats_def last)
qed




section \<open>Properties of the requests to the engine\<close>

text \<open>
  Claim C6, as stated: on a malformed response \<^verbatim>\<open>getStreamStats\<close> returns the synthetic
  statistics with status \<^verbatim>\<open>'error'\<close>. A response whose body has no \<^verbatim>\<open>response\<close> member is
  not an exception: the \<^verbatim>\<open>try\<close> block returns the defaults, with status \<^verbatim>\<open>'unknown'\<close>.
\<close>

theorem getStreamStats_malformed_not_error:
  "getStreamStats (Response NoResponse) \<noteq> Inr errorStats
   \<and> getStreamStats (Response NoResponse) =
       Inr \<lparr>status = ''unknown'', peers = 0, speedDown = 0, speedUp = 0,
            downloaded = 0, uploaded = 0, isLive = False\<rparr>"
  by (simp add: getStreamStats_def getStreamStats_try_def statsOf_def noFields_def orStr_def
        orNum_def errorStats_def)

text \<open>
  Claim C6, amended. \<^verbatim>\<open>getStreamStats\<close> never throws. When the request is rejected (network
  error, timeout, status code outside 2xx) it returns the synthetic statistics with status
  \<^verbatim>\<open>'error'\<close>, all numbers zero and \<^verbatim>\<open>isLive\<close> false. When a response arrives whose body has no
  \<^verbatim>\<open>response\<close> member it returns the same zeros with status \<^verbatim>\<open>'unknown'\<close>.
\<close>

theorem getStreamStats_never_throws:
  "(\<exists>st. getStreamStats r = Inr st)
   \<and> getStreamStats (Rejected e) = Inr errorStats
   \<and> errorStats = \<lparr>status = ''error'', peers = 0, speedDown = 0, speedUp = 0,
                     downloaded = 0, uploaded = 0, isLive = False\<rparr>
   \<and> getStreamStats (Response NoResponse) = Inr (errorStats\<lparr>status := ''unknown''\<rparr>)"
  by (simp add: getStreamStats_def getStreamStats_try_def statsOf_def noFields_def orStr_def
        orNum_def errorStats_def split: sum.splits)

lemma waitForEngine_never_ready:
  "\<forall>t. \<not> engineReady (poll t) \<Longrightarrow>
   waitForEngine poll latency elapsed = Inl ''Engine startup timeout''"
proof (induction poll latency elapsed rule: waitForEngine.induct)
  case (1 poll latency elapsed)
  then show ?case
    by (subst waitForEngine.simps) simp
qed

text \<open>
  Claim C10. For a response of the status endpoint whose body has a \<^verbatim>\<open>result\<close> object
  without a version, \<^verbatim>\<open>getStatus\<close> reports the engine as running, with no version, and
  \<^verbatim>\<open>ensureRunning\<close> returns without starting; the readiness test of \<^verbatim>\<open>waitForEngine\<close> accepts
  only a response that carries a non-empty \<^verbatim>\<open>result.version\<close>, so against an engine that
  keeps answering with that payload \<^verbatim>\<open>waitForEngine\<close> ends with the timeout error.
\<close>

theorem status_without_version_runs_but_never_ready:
  assumes "r_version result = None" and "\<forall>t. poll t = Response (WithResult result)"
  shows "getStatus (Response (WithResult result)) =
           \<lparr>running = True, version = None, platform = r_platform result, error = None\<rparr>
   \<and> ensureRunning (Response (WithResult result)) = ReturnRunning
   \<and> \<not> engineReady (Response (WithResult result))
   \<and> (engineReady probe \<longrightarrow>
         (\<exists>res v. probe = Response (WithResult res) \<and> r_version res = Some v \<and> v \<noteq> []))
   \<and> waitForEngine poll latency 0 = Inl ''Engine startup timeout''"
proof -
  have nr: "\<not> engineReady (Response (WithResult result))"
    using assms(1) by (simp add: engineReady_def truthyStr_def)
  then have "\<forall>t. \<not> engineReady (poll t)"
    using assms(2) by simp
  then have w: "waitForEngine poll latency 0 = Inl ''Engine startup timeout''"
    by (rule waitForEngine_never_ready)
  have g: "getStatus (Response (WithResult result)) =
           \<lparr>running = True, version = None, platform = r_platform result, error = None\<rparr>"
    using assms(1) by (simp add: getStatus_def)
  have e: "ensureRunning (Response (WithResult result)) = ReturnRunning"
    by (simp add: ensureRunning_def getStatus_def)
  have a: "engineReady probe \<longrightarrow>
         (\<exists>res v. probe = Response (WithResult res) \<and> r_version res = Some v \<and> v \<noteq> [])"
    by (auto simp: engineReady_def truthyStr_def
          split: axios_result.splits version_body.splits option.splits)
  from nr w g e a show ?thesis by blast
qed

theorem status_without_version_runs_but_never_ready_witness:
  "r_version \<lparr>r_version = None, r_platform = Some ''win32''\<rparr> = None
   \<and> (\<forall>t::nat. (\<lambda>t. Response (WithResult \<lparr>r_version = None, r_platform = Some ''win32''\<rparr>)) t
          = Response (WithResult \<lparr>r_version = None, r_platform = Some ''win32''\<rparr>))
   \<and> running (getStatus (Response (WithResult \<lparr>r_version = None, r_platform = Some ''win32''\<rparr>)))
   \<and> waitForEngine (\<lambda>t. Response (WithResult \<lparr>r_version = None, r_platform = Some ''win32''\<rparr>))
        (\<lambda>t. 10) 0 = Inl ''Engine startup timeout''
   \<and> engineReady (Response (WithResult \<lparr>r_version = Some ''3.1.74'', r_platform = None\<rparr>))"
proof -
  let ?res = "\<lparr>r_version = None, r_platform = Some ''win32''\<rparr>"
  have h1: "r_version ?res = None" by simp
  have h2: "\<forall>t::nat. (\<lambda>t. Response (WithResult ?res)) t = Response (WithResult ?res)" by simp
  note t = status_without_version_runs_but_never_ready
    [of ?res "\<lambda>t. Response (WithResult ?res)", OF h1 h2, of
      "Response (WithResult \<lparr>r_version = Some ''3.1.74'', r_platform = None\<rparr>)" "\<lambda>t. 10"]
  have r: "engineReady (Response (WithResult \<lparr>r_version = Some ''3.1.74'', r_platform = None\<rparr>))"
    by (simp add: engineReady_def truthyStr_def)
  from t have "running (getStatus (Response (WithResult ?res)))" by simp
  with t r h1 show ?thesis by simp
qed

section \<open>Properties of the IPC handlers\<close>

lemma matchHex_iff: "matchHex n s \<longleftrightarrow> length s = n \<and> (\<forall>c \<in> set s. hexChar c)"
  by (induction n s rule: matchHex.induct) auto

lemma isValidContentId_iff:
  "isValidContentId x \<longleftrightarrow> (\<exists>s. x = Str s \<and> length s = 40 \<and> (\<forall>c \<in> set s. hexChar c))"
  by (cases x) (auto simp: isValidContentId_def CONTENT_ID_REGEX_test_def matchHex_iff)

lemma startsWith_iff: "startsWith s p \<longleftrightarrow> (\<exists>rest. s = p @ rest)"
proof
  assume "startsWith s p"
  then have "s = p @ drop (length p) s"
    unfolding startsWith_def by (metis append_take_drop_id)
  then show "\<exists>rest. s = p @ rest" ..
next
  assume "\<exists>rest. s = p @ rest"
  then show "startsWith s p"
    unfolding startsWith_def by auto
qed

lemma isValidApiUrl_iff:
  "isValidApiUrl url \<longleftrightarrow> (\<exists>rest. url = Str (ALLOWED_API_HOST @ rest))"
  by (cases url) (simp_all add: isValidApiUrl_def startsWith_iff)

lemma valid_contentId_example:
  "isValidContentId (Str ''94c2fd8fb9bc8f2fc71a2cbe9d4b866f227a0209'')"
  unfolding isValidContentId_iff by (simp add: hexChar_def)

lemma invalid_contentId_example:
  "\<not> isValidContentId (Str ''acestream://94c2fd8fb9bc8f2fc71a2cbe9d4b866f227a0209'')"
  unfolding isValidContentId_iff by simp

lemma invalid_url_example: "\<not> isValidApiUrl (Str ''http://10.0.0.7:6878/ace/stat/1'')"
  by (simp add: isValidApiUrl_def startsWith_def ALLOWED_API_HOST_def)

text \<open>
  Claim C7. An argument of the play handler that is not a string of exactly 40 hexadecimal
  digits is answered with the failure result (success false, with an error message) and no
  call on the engine manager is made; an argument that matches the pattern is passed
  unchanged to \<^verbatim>\<open>startPlayback\<close>, in one call.
\<close>

theorem play_rejects_invalid_contentId:
  "(isValidContentId contentId \<longleftrightarrow>
      (\<exists>s. contentId = Str s \<and> length s = 40 \<and> (\<forall>c \<in> set s. hexChar c)))
   \<and> (\<not> isValidContentId contentId \<longrightarrow>
        acestream_play startPlayback contentId =
          (\<lparr>play_success = False,
            play_error = Some ''Invalid content ID format. Expected 40-character hex string.'',
            play_session = None\<rparr>, []))
   \<and> (isValidContentId contentId \<longrightarrow>
        contentId = Str (asString contentId) \<and>
        snd (acestream_play startPlayback contentId) = [StartPlayback (asString contentId)])"
  unfolding isValidContentId_iff [symmetric]
  by (cases contentId)
     (auto simp: acestream_play_def isValidContentId_def asString_def split: sum.splits)

theorem play_rejects_invalid_contentId_witness:
  "\<not> isValidContentId (Str ''acestream://94c2fd8fb9bc8f2fc71a2cbe9d4b866f227a0209'')
   \<and> snd (acestream_play (\<lambda>s. Inl ''engine down'')
        (Str ''acestream://94c2fd8fb9bc8f2fc71a2cbe9d4b866f227a0209'')) = []
   \<and> \<not> play_success (fst (acestream_play (\<lambda>s. Inl ''engine down'')
        (Str ''acestream://94c2fd8fb9bc8f2fc71a2cbe9d4b866f227a0209'')))
   \<and> isValidContentId (Str ''94c2fd8fb9bc8f2fc71a2cbe9d4b866f227a0209'')
   \<and> snd (acestream_play (\<lambda>s. Inl ''engine down'')
        (Str ''94c2fd8fb9bc8f2fc71a2cbe9d4b866f227a0209''))
       = [StartPlayback ''94c2fd8fb9bc8f2fc71a2cbe9d4b866f227a0209'']"
proof -
  let ?bad = "Str ''acestream://94c2fd8fb9bc8f2fc71a2cbe9d4b866f227a0209''"
  let ?good = "Str ''94c2fd8fb9bc8f2fc71a2cbe9d4b866f227a0209''"
  note b = play_rejects_invalid_contentId [of ?bad "\<lambda>s. Inl ''engine down''"]
  note g = play_rejects_invalid_contentId [of ?good "\<lambda>s. Inl ''engine down''"]
  have hb: "\<not> isValidContentId ?bad" by (rule invalid_contentId_example)
  have hg: "isValidContentId ?good" by (rule valid_contentId_example)
  from b hb have 1: "acestream_play (\<lambda>s. Inl ''engine down'') ?bad =
          (\<lparr>play_success = False,
            play_error = Some ''Invalid content ID format. Expected 40-character hex string.'',
            play_session = None\<rparr>, [])"
    by blast
  from g hg have 2: "snd (acestream_play (\<lambda>s. Inl ''engine down'') ?good)
      = [StartPlayback (asString ?good)]"
    by blast
  have 3: "asString ?good = ''94c2fd8fb9bc8f2fc71a2cbe9d4b866f227a0209''"
    by (simp add: asString_def)
  from hb hg 1 2 3 show ?thesis by simp
qed

text \<open>
  Claim C8. An argument of the stats handler or of the stop handler that is not a string
  starting with \<^verbatim>\<open>http://127.0.0.1:6878/\<close> is rejected without any call on the engine manager,
  hence without a request: the stats handler returns the synthetic error statistics and the
  stop handler returns the failure result; neither throws.
\<close>

theorem stats_and_stop_reject_foreign_url:
  "(isValidApiUrl url \<longleftrightarrow> (\<exists>rest. url = Str (''http://127.0.0.1:6878/'' @ rest)))
   \<and> (\<not> isValidApiUrl url \<longrightarrow>
        acestream_stats statNet url =
          (Inr \<lparr>status = ''error'', peers = 0, speedDown = 0, speedUp = 0,
                downloaded = 0, uploaded = 0, isLive = False\<rparr>, [])
        \<and> acestream_stop stopNet url =
          (Inr \<lparr>stop_success = False, stop_error = Some ''Invalid command URL''\<rparr>, []))"
  using isValidApiUrl_iff [of url]
  by (simp add: acestream_stats_def acestream_stop_def ALLOWED_API_HOST_def)

theorem stats_and_stop_reject_foreign_url_witness:
  "\<not> isValidApiUrl (Str ''http://10.0.0.7:6878/ace/stat/1'')
   \<and> acestream_stats (\<lambda>u. Rejected Timeout) (Str ''http://10.0.0.7:6878/ace/stat/1'')
       = (Inr errorStats, [])
   \<and> snd (acestream_stop (\<lambda>u. Response ()) (Str ''http://10.0.0.7:6878/ace/stat/1'')) = []"
proof -
  let ?u = "Str ''http://10.0.0.7:6878/ace/stat/1''"
  note t = stats_and_stop_reject_foreign_url [of ?u "\<lambda>u. Rejected Timeout" "\<lambda>u. Response ()"]
  have h: "\<not> isValidApiUrl ?u" by (rule invalid_url_example)
  from t h have "acestream_stats (\<lambda>u. Rejected Timeout) ?u =
          (Inr \<lparr>status = ''error'', peers = 0, speedDown = 0, speedUp = 0,
                downloaded = 0, uploaded = 0, isLive = False\<rparr>, [])
        \<and> acestream_stop (\<lambda>u. Response ()) ?u =
          (Inr \<lparr>stop_success = False, stop_error = Some ''Invalid command URL''\<rparr>, [])"
    by blast
  with h show ?thesis by (simp add: errorStats_def)
qed

section \<open>Properties of killProcessTree\<close>

lemma signals_process_kill: "signals (fst (process_kill p s)) = signals s @ [p]"
  by (simp add: process_kill_def split: option.splits ptree.splits)

lemma tryCatch_process_kill:
  "tryCatch (process_kill p s) = (fst (process_kill p s), None)"
  by (cases "process_kill p s") (simp add: tryCatch_def split: option.splits)

lemma tryCatch_pair: "tryCatch (s, x) = (s, None)"
  by (simp add: tryCatch_def split: option.splits)

lemma andThen_normal: "andThen (s, None) f = f s"
  by (simp add: andThen_def)

lemma snd_tryCatch: "snd (tryCatch r) = None"
  by (cases r) (simp add: tryCatch_def split: option.splits)

lemma killEach_result:
  "snd (killEach ps s) = None \<and> signals (fst (killEach ps s)) = signals s @ ps"
  by (induction ps arbitrary: s)
     (simp_all add: tryCatch_process_kill andThen_normal signals_process_kill)

lemma tryCatch_killEach: "tryCatch (killEach ps s) = (fst (killEach ps s), None)"
  using killEach_result [of ps s]
  by (cases "killEach ps s") (simp add: tryCatch_def)

lemma getChildProcesses_unix:
  "plat \<noteq> Win32 \<Longrightarrow>
   getChildProcesses plat (Proc p cs) =
     concat (map (\<lambda>t. root_pid t # getChildProcesses plat t) cs)"
  by (cases plat; cases cs) simp_all

lemma set_getChildProcesses:
  "plat \<noteq> Win32 \<Longrightarrow> set (getChildProcesses plat t) = descendants t"
proof (induction t)
  case (Proc p cs)
  then show ?case
    by (auto simp: getChildProcesses_unix simp del: getChildProcesses.simps)
qed

lemma killProcessTree_unix:
  "plat \<noteq> Win32 \<Longrightarrow>
   killProcessTree plat pid s =
     (fst (process_kill pid
        (fst (killEach
           (case find_procs pid (procs s) of
              None \<Rightarrow> []
            | Some t \<Rightarrow> getChildProcesses plat t) s))), None)"
  by (simp add: killProcessTree_def tryCatch_killEach andThen_normal tryCatch_process_kill
        tryCatch_pair del: getChildProcesses.simps)

lemma signals_killProcessTree:
  "plat \<noteq> Win32 \<Longrightarrow> find_procs pid (procs s) = Some t \<Longrightarrow>
   signals (fst (killProcessTree plat pid s)) = signals s @ getChildProcesses plat t @ [pid]"
  by (simp add: killProcessTree_unix signals_process_kill killEach_result
        del: getChildProcesses.simps)

lemma signals_killProcessTree_dead:
  "plat \<noteq> Win32 \<Longrightarrow> find_procs pid (procs s) = None \<Longrightarrow>
   signals (fst (killProcessTree plat pid s)) = signals s @ [pid]"
  by (simp add: killProcessTree_unix signals_process_kill)

lemma killProcessTree_no_exception: "snd (killProcessTree plat pid s) = None"
  unfolding killProcessTree_def by (rule snd_tryCatch)

lemma getChildProcesses_two_levels:
  assumes u: "plat \<noteq> Win32"
  shows "getChildProcesses plat
           (Proc r (map (\<lambda>(c, gs). Proc c (map (\<lambda>g. Proc g []) gs)) cgs))
         = concat (map (\<lambda>(c, gs). c # gs) cgs)"
proof -
  have leaf: "getChildProcesses plat (Proc g []) = []" for g
    by (simp add: getChildProcesses_unix [OF u] del: getChildProcesses.simps)
  have lvl1: "getChildProcesses plat (Proc c (map (\<lambda>g. Proc g []) gs)) = gs" for c gs
    by (induction gs)
       (simp_all add: getChildProcesses_unix [OF u] leaf del: getChildProcesses.simps)
  have comp: "(\<lambda>t. root_pid t # getChildProcesses plat t) \<circ>
        (\<lambda>(c, gs). Proc c (map (\<lambda>g. Proc g []) gs)) = (\<lambda>(c, gs). c # gs)"
    by (auto simp: fun_eq_iff lvl1 simp del: getChildProcesses.simps)
  show ?thesis
    by (subst getChildProcesses_unix [OF u]) (simp add: comp del: getChildProcesses.simps)
qed

text \<open>
  Claim C9, as stated: the descendants are signalled bottom-up. On the root 1 with the
  child 2 and the grandchild 3, on Linux, the signals go to 2, then 3, then 1: the child is
  signalled before its own child.
\<close>

theorem killProcessTree_not_bottom_up:
  "signals (fst (killProcessTree Linux 1
      \<lparr>procs = [Proc 1 [Proc 2 [Proc 3 []]]], signals = []\<rparr>)) = [2, 3, 1]
   \<and> signals (fst (killProcessTree Linux 1
      \<lparr>procs = [Proc 1 [Proc 2 [Proc 3 []]]], signals = []\<rparr>)) \<noteq> [3, 2, 1]
   \<and> indexOf 2 [2, 3, 1] < indexOf 3 [2, 3, 1]"
proof -
  have f: "find_procs 1 (procs \<lparr>procs = [Proc 1 [Proc 2 [Proc 3 []]]], signals = []\<rparr>)
      = Some (Proc 1 [Proc 2 [Proc 3 []]])"
    by simp
  have "signals (fst (killProcessTree Linux 1
      \<lparr>procs = [Proc 1 [Proc 2 [Proc 3 []]]], signals = []\<rparr>)) = [2, 3, 1]"
    by (subst signals_killProcessTree [OF _ f]) simp_all
  then show ?thesis by simp
qed

text \<open>
  Claim C9, amended. On Linux and macOS, \<^verbatim>\<open>killProcessTree\<close> on a live root sends the kill
  signal to every descendant and then to the root: the descendants in the order in which
  \<^verbatim>\<open>getChildProcesses\<close> lists them, each child followed by its own children (for two levels:
  the first child, its children, the second child, its children, ...), the root last. No
  exception leaves the function, on the first call and on a second call on the state that
  the first call left; on a root that is no longer alive the only signal is the one to the
  root, whose failure is swallowed.
\<close>

theorem killProcessTree_descendants_then_root:
  assumes "plat \<noteq> Win32" and "find_procs pid (procs s) = Some t"
  shows "signals (fst (killProcessTree plat pid s))
           = signals s @ getChildProcesses plat t @ [pid]
   \<and> set (getChildProcesses plat t) = descendants t
   \<and> (t = Proc pid (map (\<lambda>(c, gs). Proc c (map (\<lambda>g. Proc g []) gs)) cgs) \<longrightarrow>
        getChildProcesses plat t = concat (map (\<lambda>(c, gs). c # gs) cgs))
   \<and> snd (killProcessTree plat pid s) = None
   \<and> snd (killProcessTree plat pid (fst (killProcessTree plat pid s))) = None
   \<and> (find_procs pid (procs s') = None \<longrightarrow>
        signals (fst (killProcessTree plat pid s')) = signals s' @ [pid]
        \<and> snd (killProcessTree plat pid s') = None)"
  using signals_killProcessTree [OF assms] set_getChildProcesses [OF assms(1), of t]
    getChildProcesses_two_levels [OF assms(1), of pid cgs]
    signals_killProcessTree_dead [OF assms(1), of pid s']
  by (simp add: killProcessTree_no_exception del: getChildProcesses.simps)

theorem killProcessTree_descendants_then_root_witness:
  "Darwin \<noteq> Win32
   \<and> find_procs 10 (procs \<lparr>procs = [Proc 1 [Proc 10 [Proc 11 [Proc 13 [], Proc 14 []],
         Proc 12 [Proc 15 []]]]], signals = []\<rparr>)
       = Some (Proc 10 [Proc 11 [Proc 13 [], Proc 14 []], Proc 12 [Proc 15 []]])
   \<and> signals (fst (killProcessTree Darwin 10 \<lparr>procs = [Proc 1 [Proc 10 [Proc 11 [Proc 13 [],
         Proc 14 []], Proc 12 [Proc 15 []]]]], signals = []\<rparr>)) = [11, 13, 14, 12, 15, 10]
   \<and> fst (killProcessTree Darwin 10 \<lparr>procs = [Proc 1 [Proc 10 [Proc 11 [Proc 13 [],
         Proc 14 []], Proc 12 [Proc 15 []]]]], signals = []\<rparr>)
       = \<lparr>procs = [Proc 1 []], signals = [11, 13, 14, 12, 15, 10]\<rparr>
   \<and> find_procs 10 (procs \<lparr>procs = [Proc 1 []], signals = [11, 13, 14, 12, 15, 10]\<rparr>) = None
   \<and> signals (fst (killProcessTree Darwin 10
         \<lparr>procs = [Proc 1 []], signals = [11, 13, 14, 12, 15, 10]\<rparr>))
       = [11, 13, 14, 12, 15, 10, 10]
   \<and> snd (killProcessTree Darwin 10
         \<lparr>procs = [Proc 1 []], signals = [11, 13, 14, 12, 15, 10]\<rparr>) = None"
proof -
  let ?t = "Proc 10 [Proc 11 [Proc 13 [], Proc 14 []], Proc 12 [Proc 15 []]]"
  let ?s = "\<lparr>procs = [Proc 1 [?t]], signals = []\<rparr>"
  let ?s' = "\<lparr>procs = [Proc 1 []], signals = [11, 13, 14, 12, 15, 10]\<rparr>"
  have h1: "Darwin \<noteq> Win32" by simp
  have h2: "find_procs 10 (procs ?s) = Some ?t" by simp
  have h3: "find_procs 10 (procs ?s') = None" by simp
  note t = killProcessTree_descendants_then_root [OF h1 h2, of "[(11, [13, 14]), (12, [15])]" ?s']
  have g: "getChildProcesses Darwin ?t = [11, 13, 14, 12, 15]" by simp
  from t g have a: "signals (fst (killProcessTree Darwin 10 ?s)) = [11, 13, 14, 12, 15, 10]"
    by simp
  from t h3 have b: "signals (fst (killProcessTree Darwin 10 ?s')) = signals ?s' @ [10]
      \<and> snd (killProcessTree Darwin 10 ?s') = None"
    by blast
  have c: "fst (killProcessTree Darwin 10 ?s) = ?s'"
    by (simp add: killProcessTree_def process_kill_def tryCatch_def andThen_def)
  from h1 h2 h3 a b c show ?thesis by simp
qed

section \<open>Properties of concurrent calls of start\<close>

text \<open>
  A call of \<^verbatim>\<open>start\<close> that finds \<^verbatim>\<open>startPromise\<close> set returns that promise: it spawns nothing
  and sees the outcome of that promise.
\<close>

lemma start_joins_pending:
  "startPromise m = Some p \<Longrightarrow> callers m c = None \<Longrightarrow>
   start_step env m (CallStart c) = m\<lparr>callers := (callers m)(c \<mapsto> ReturnedPromise p)\<rparr>
   \<and> spawnCount (start_step env m (CallStart c)) = spawnCount m
   \<and> observed (start_step env m (CallStart c)) c = promises m p"
  by (simp add: observed_def)

text \<open>
  Claim C1. \<^verbatim>\<open>startPromise\<close> is set only after \<^verbatim>\<open>await this.getStatus()\<close>. Two calls of
  \<^verbatim>\<open>start\<close> made one after the other, before the status probe of the first is answered,
  both find \<^verbatim>\<open>startPromise\<close> empty; when the probes answer that the engine is not running,
  each call runs \<^verbatim>\<open>_doStart\<close>: two processes are spawned and the two callers await two
  different attempts.
\<close>

theorem start_race_spawns_twice:
  "spawnCount (start_run
      \<lparr>env_platform = Linux, executable = ''engine/linux/start-engine'',
        executableExists = True, winePath = None\<rparr>
      [CallStart 0, CallStart 1,
       StatusArrives 0 (Rejected NetworkError), StatusArrives 1 (Rejected NetworkError)]
      newManager) = 2
   \<and> callers (start_run
      \<lparr>env_platform = Linux, executable = ''engine/linux/start-engine'',
        executableExists = True, winePath = None\<rparr>
      [CallStart 0, CallStart 1,
       StatusArrives 0 (Rejected NetworkError), StatusArrives 1 (Rejected NetworkError)]
      newManager) 0 = Some (AwaitingStart 0)
   \<and> callers (start_run
      \<lparr>env_platform = Linux, executable = ''engine/linux/start-engine'',
        executableExists = True, winePath = None\<rparr>
      [CallStart 0, CallStart 1,
       StatusArrives 0 (Rejected NetworkError), StatusArrives 1 (Rejected NetworkError)]
      newManager) 1 = Some (AwaitingStart 1)"
  by (simp add: start_run_def newManager_def getStatus_def notRunning_def doStart_def
        continueStart_def)

end
